theory Spec2Isabelle
  imports Complex_Main "HOL-Library.Sublist"
begin

section \<open>The discrete contact check task of the task composer\<close>

text \<open>
  A shallow embedding of \<^verbatim>\<open>discrete_contact_check_task.cpp\<close>: the three constructors
  of \<^verbatim>\<open>DiscreteContactCheckTask\<close>, its \<^verbatim>\<open>runImpl\<close>, and the comparison operators of the
  task and of its \<^verbatim>\<open>DiscreteContactCheckTaskInfo\<close>. Members are named as in the source,
  without the trailing underscore of \<^verbatim>\<open>name_\<close>, \<^verbatim>\<open>input_keys_\<close>.
  An exception, and the undefined behaviour of \<^verbatim>\<open>operator[]\<close> on an empty vector, are
  values of the type \<open>exn\<close>; a function that can throw returns \<open>exn + 'a\<close>.
\<close>

subsection \<open>Errors\<close>

datatype exn =
    RuntimeError string
  | UndefinedBehaviour
  | BadAnyCast

subsection \<open>The task node\<close>

record TaskComposerTask =
  name :: string
  conditional :: bool
  input_keys :: "string list"

text \<open>
  Modelled from the spec: the base-class constructor \<^verbatim>\<open>TaskComposerTask(name, is_conditional)\<close>
  is not in this file. It stores the name and the conditional flag; the list of input keys
  starts empty (direct construction "stores a single input key" by one \<^verbatim>\<open>push_back\<close>).
\<close>

definition TaskComposerTask_ctor :: "string \<Rightarrow> bool \<Rightarrow> TaskComposerTask" where
  "TaskComposerTask_ctor nm is_conditional =
     \<lparr>name = nm, conditional = is_conditional, input_keys = []\<rparr>"

text \<open>\<^verbatim>\<open>DiscreteContactCheckTask()\<close>, line 43.\<close>

definition DiscreteContactCheckTask_default :: TaskComposerTask where
  "DiscreteContactCheckTask_default = TaskComposerTask_ctor ''DiscreteContactCheckTask'' True"

text \<open>\<^verbatim>\<open>DiscreteContactCheckTask(name, input_key, is_conditional)\<close>, lines 45 to 49.\<close>

definition DiscreteContactCheckTask_ctor :: "string \<Rightarrow> string \<Rightarrow> bool \<Rightarrow> TaskComposerTask" where
  "DiscreteContactCheckTask_ctor nm input_key is_conditional =
     (let this = TaskComposerTask_ctor nm is_conditional
      in this\<lparr>input_keys := input_keys this @ [input_key]\<rparr>)"

text \<open>
  \<^verbatim>\<open>DiscreteContactCheckTask(name, config, plugin_factory)\<close>, lines 51 to 62. The
  base-class constructor that parses the YAML node is not in this file: it is the parameter
  \<open>base\<close>, which either throws or yields the parsed node. The plugin factory is unused.
\<close>

definition missing_inputs_message :: string where
  "missing_inputs_message =
     ''DiscreteContactCheckTask, config missing '' @ [CHR 0x27] @ ''inputs'' @ [CHR 0x27] @
     '' entry''"

definition one_input_key_message :: string where
  "one_input_key_message =
     ''DiscreteContactCheckTask, config '' @ [CHR 0x27] @ ''inputs'' @ [CHR 0x27] @
     '' entry currently only supports one input key''"

definition DiscreteContactCheckTask_config ::
  "(string \<Rightarrow> 'yaml \<Rightarrow> exn + TaskComposerTask) \<Rightarrow> string \<Rightarrow> 'yaml \<Rightarrow> exn + TaskComposerTask"
where
  "DiscreteContactCheckTask_config base nm cfg =
     (case base nm cfg of
        Inl e \<Rightarrow> Inl e
      | Inr this \<Rightarrow>
          if input_keys this = [] then Inl (RuntimeError missing_inputs_message)
          else if length (input_keys this) > 1 then Inl (RuntimeError one_input_key_message)
          else Inr this)"

text \<open>
  Modelled from the spec: \<^verbatim>\<open>TaskComposerTask::operator==\<close> is not in this file. Two nodes
  are equal iff they have the same name, conditional flag and input keys.
\<close>

definition TaskComposerTask_eq :: "TaskComposerTask \<Rightarrow> TaskComposerTask \<Rightarrow> bool" where
  "TaskComposerTask_eq this rhs \<longleftrightarrow>
     name this = name rhs \<and> conditional this = conditional rhs \<and>
     input_keys this = input_keys rhs"

text \<open>\<^verbatim>\<open>DiscreteContactCheckTask::operator==\<close> and \<^verbatim>\<open>operator!=\<close>, lines 132 to 138.\<close>

definition DiscreteContactCheckTask_eq :: "TaskComposerTask \<Rightarrow> TaskComposerTask \<Rightarrow> bool" where
  "DiscreteContactCheckTask_eq this rhs =
     (let equal = True;
          equal = (equal \<and> TaskComposerTask_eq this rhs)
      in equal)"

definition DiscreteContactCheckTask_neq :: "TaskComposerTask \<Rightarrow> TaskComposerTask \<Rightarrow> bool" where
  "DiscreteContactCheckTask_neq this rhs = (\<not> DiscreteContactCheckTask_eq this rhs)"

subsection \<open>Collaborators: environment, contact data, profiles, instructions\<close>

text \<open>
  The types below are declared in headers that are not under the sources. Each is reduced
  to the members this file reads or writes.
\<close>

record ContactResult =
  link_names :: "string \<times> string"
  distance :: real

type_synonym ContactResultMap = "((string \<times> string) \<times> ContactResult list) list"

datatype ContactManagerConfig = ContactManagerConfig real

record CollisionCheckConfig =
  contact_manager_config :: ContactManagerConfig
  longest_valid_segment_length :: real

record ContactCheckProfile =
  config :: CollisionCheckConfig

record ManipulatorInfo =
  manipulator :: string

record JointGroup =
  getActiveLinkNames :: "string list"

datatype StateSolver = StateSolver nat

record DiscreteContactManager =
  active_collision_objects :: "string list"
  manager_config :: "ContactManagerConfig option"

text \<open>
  Modelled from the spec: the contact manager's \<^verbatim>\<open>setActiveCollisionObjects\<close> and
  \<^verbatim>\<open>applyContactManagerConfig\<close> are not in this file. Each stores its argument in the
  manager; the manager is the one the environment hands out for this run.
\<close>

definition setActiveCollisionObjects ::
  "DiscreteContactManager \<Rightarrow> string list \<Rightarrow> DiscreteContactManager" where
  "setActiveCollisionObjects manager names = manager\<lparr>active_collision_objects := names\<rparr>"

definition applyContactManagerConfig ::
  "DiscreteContactManager \<Rightarrow> ContactManagerConfig \<Rightarrow> DiscreteContactManager" where
  "applyContactManagerConfig manager c = manager\<lparr>manager_config := Some c\<rparr>"

record Environment =
  getJointGroup :: "string \<Rightarrow> JointGroup"
  getStateSolver :: StateSolver
  getDiscreteContactManager :: DiscreteContactManager

record CompositeInstruction =
  getProfile :: string
  getProfileOverrides :: "(ContactCheckProfile \<Rightarrow> ContactCheckProfile) option"
  getManipulatorInfo :: ManipulatorInfo
  getDescription :: string

subsection \<open>The data store\<close>

text \<open>
  Modelled from the spec: the typed value of the data store (\<^verbatim>\<open>AnyPoly\<close>) is not in this
  file. A value is null, or a composite instruction, or a value of another type, named by
  its type; \<^verbatim>\<open>getType\<close> is the type identifier used for the type guard.
\<close>

datatype type_index = TI_null | TI_CompositeInstruction | TI_other string

datatype AnyPoly =
    AnyPoly_null
  | AnyPoly_CompositeInstruction CompositeInstruction
  | AnyPoly_other string

fun isNull :: "AnyPoly \<Rightarrow> bool" where
  "isNull AnyPoly_null = True"
| "isNull _ = False"

fun getType :: "AnyPoly \<Rightarrow> type_index" where
  "getType AnyPoly_null = TI_null"
| "getType (AnyPoly_CompositeInstruction _) = TI_CompositeInstruction"
| "getType (AnyPoly_other t) = TI_other t"

text \<open>\<^verbatim>\<open>as<CompositeInstruction>()\<close>: the cast of a value of another type throws.\<close>

fun as_CompositeInstruction :: "AnyPoly \<Rightarrow> exn + CompositeInstruction" where
  "as_CompositeInstruction (AnyPoly_CompositeInstruction ci) = Inr ci"
| "as_CompositeInstruction _ = Inl BadAnyCast"

type_synonym TaskComposerDataStorage = "string \<rightharpoonup> AnyPoly"

text \<open>
  Modelled from the spec: \<^verbatim>\<open>TaskComposerDataStorage::getData\<close> is not in this file. It is
  \<^verbatim>\<open>get(key) \<rightarrow> TypedValue | empty\<close>: a key that is not bound yields the null value.
\<close>

definition getData :: "TaskComposerDataStorage \<Rightarrow> string \<Rightarrow> AnyPoly" where
  "getData ds key = (case ds key of None \<Rightarrow> AnyPoly_null | Some v \<Rightarrow> v)"

subsection \<open>The execution context\<close>

type_synonym ProfileRemapping = "(string \<times> string) \<rightharpoonup> string"

text \<open>
  A \<^verbatim>\<open>shared_ptr\<close> to a profile is an address; the profile registry maps a node name and
  a profile name to the address of the profile it stores.
\<close>

type_synonym ProfilePtr = nat

type_synonym ProfileDictionary = "(string \<times> string) \<rightharpoonup> ProfilePtr"

record TaskComposerProblem =
  problem_env :: Environment
  manip_info :: ManipulatorInfo
  composite_profile_remapping :: ProfileRemapping

record TaskComposerInput =
  problem :: TaskComposerProblem
  profiles :: ProfileDictionary
  data_storage :: TaskComposerDataStorage
  isAborted :: bool

subsection \<open>The report\<close>

record TaskComposerNodeInfo =
  info_name :: string
  return_value :: int
  message :: string
  elapsed_time :: real
  env :: "Environment option"

record DiscreteContactCheckTaskInfo = TaskComposerNodeInfo +
  contact_results :: "ContactResultMap list"

text \<open>
  Modelled from the spec: the base-class constructor \<^verbatim>\<open>TaskComposerNodeInfo(task)\<close> is not
  in this file. It binds the report to the node's name; the message is empty, the elapsed
  time is zero and no environment is attached. The return code it leaves is overwritten on
  line 68.
\<close>

definition TaskComposerNodeInfo_ctor :: "TaskComposerTask \<Rightarrow> TaskComposerNodeInfo" where
  "TaskComposerNodeInfo_ctor task =
     \<lparr>info_name = name task, return_value = 0, message = [], elapsed_time = 0, env = None\<rparr>"

text \<open>
  \<^verbatim>\<open>DiscreteContactCheckTaskInfo(task)\<close>, lines 146 to 149: the base part, and the
  vector of contact results default-initialised.
\<close>

definition DiscreteContactCheckTaskInfo_ctor ::
  "TaskComposerTask \<Rightarrow> DiscreteContactCheckTaskInfo" where
  "DiscreteContactCheckTaskInfo_ctor task =
     TaskComposerNodeInfo.extend (TaskComposerNodeInfo_ctor task)
       (DiscreteContactCheckTaskInfo.fields [])"

text \<open>
  \<^verbatim>\<open>DiscreteContactCheckTaskInfo::operator==\<close> and \<^verbatim>\<open>operator!=\<close>, lines 156 to 166.
  \<^verbatim>\<open>TaskComposerNodeInfo::operator==\<close> is not in this file: it is the parameter
  \<open>base_eq\<close>, which receives the two reports as objects of the base class. The
  comparison of \<^verbatim>\<open>contact_results\<close> is commented out in the source.
\<close>

definition DiscreteContactCheckTaskInfo_eq ::
  "(TaskComposerNodeInfo \<Rightarrow> TaskComposerNodeInfo \<Rightarrow> bool)
     \<Rightarrow> DiscreteContactCheckTaskInfo \<Rightarrow> DiscreteContactCheckTaskInfo \<Rightarrow> bool" where
  "DiscreteContactCheckTaskInfo_eq base_eq this rhs =
     (let equal = True;
          equal = (equal \<and>
                   base_eq (TaskComposerNodeInfo.truncate this) (TaskComposerNodeInfo.truncate rhs))
      in equal)"

definition DiscreteContactCheckTaskInfo_neq ::
  "(TaskComposerNodeInfo \<Rightarrow> TaskComposerNodeInfo \<Rightarrow> bool)
     \<Rightarrow> DiscreteContactCheckTaskInfo \<Rightarrow> DiscreteContactCheckTaskInfo \<Rightarrow> bool" where
  "DiscreteContactCheckTaskInfo_neq base_eq this rhs =
     (\<not> DiscreteContactCheckTaskInfo_eq base_eq this rhs)"

subsection \<open>What the run leaves behind: collaborator calls and profile objects\<close>

text \<open>
  The state threaded through a run: the calls made to the timer, the data store and the
  validator, in order, and the memory holding profile objects. Addresses below
  \<open>next_free\<close> are allocated; \<^verbatim>\<open>make_shared\<close> allocates the next one.
\<close>

datatype event =
    Timer_start
  | DataStorage_getData string
  | ContactCheckProgram_call
  | Timer_elapsedSeconds

record sys =
  calls :: "event list"
  heap :: "ProfilePtr \<Rightarrow> ContactCheckProfile"
  next_free :: nat

definition record_call :: "event \<Rightarrow> sys \<Rightarrow> sys" where
  "record_call e s = s\<lparr>calls := calls s @ [e]\<rparr>"

definition make_shared :: "ContactCheckProfile \<Rightarrow> sys \<Rightarrow> ProfilePtr \<times> sys" where
  "make_shared p s =
     (next_free s, s\<lparr>heap := (heap s)(next_free s := p), next_free := Suc (next_free s)\<rparr>)"

text \<open>
  What this file uses and neither defines nor receives through its arguments: the
  library-wide default profile name, the default-constructed contact check profile, the
  combination of two manipulator infos, the validator \<^verbatim>\<open>contactCheckProgram\<close> (its
  boolean result and the contacts it writes through its first argument), and the reading of
  the timer.
\<close>

record externals =
  DEFAULT_PROFILE_KEY :: string
  default_ContactCheckProfile :: ContactCheckProfile
  getCombined :: "ManipulatorInfo \<Rightarrow> ManipulatorInfo \<Rightarrow> ManipulatorInfo"
  contactCheckProgram ::
    "DiscreteContactManager \<Rightarrow> StateSolver \<Rightarrow> CompositeInstruction \<Rightarrow> CollisionCheckConfig
       \<Rightarrow> bool \<times> ContactResultMap list"
  elapsedSeconds :: real

subsection \<open>Profile resolution\<close>

text \<open>
  Modelled from the spec: \<^verbatim>\<open>getProfileString\<close> is not in this file. An empty declared
  name is replaced by the default name; then the remapping table is looked up once at the
  node name and that name, and a mapped name replaces it.
\<close>

definition getProfileString :: "string \<Rightarrow> string \<Rightarrow> string \<Rightarrow> ProfileRemapping \<Rightarrow> string" where
  "getProfileString default_key ns profile remapping =
     (let declared = (if profile = [] then default_key else profile)
      in case remapping (ns, declared) of
           Some mapped \<Rightarrow> mapped
         | None \<Rightarrow> declared)"

text \<open>
  Modelled from the spec: \<^verbatim>\<open>getProfile<ContactCheckProfile>\<close> is not in this file. The
  name is looked up in the registry; when it is absent the default passed in is returned.
\<close>

definition getProfile_ContactCheckProfile ::
  "string \<Rightarrow> string \<Rightarrow> ProfileDictionary \<Rightarrow> ProfilePtr \<Rightarrow> ProfilePtr" where
  "getProfile_ContactCheckProfile ns profile dict default_profile =
     (case dict (ns, profile) of
        Some p \<Rightarrow> p
      | None \<Rightarrow> default_profile)"

text \<open>
  Modelled from the spec: \<^verbatim>\<open>applyProfileOverrides\<close> is not in this file. With no
  override the profile is returned as it is; with an override, the override is applied to a
  copy, which is a new object.
\<close>

definition applyProfileOverrides ::
  "string \<Rightarrow> string \<Rightarrow> ProfilePtr \<Rightarrow> (ContactCheckProfile \<Rightarrow> ContactCheckProfile) option \<Rightarrow> sys
     \<Rightarrow> ProfilePtr \<times> sys" where
  "applyProfileOverrides ns profile cur overrides s =
     (case overrides of
        None \<Rightarrow> (cur, s)
      | Some f \<Rightarrow> make_shared (f (heap s cur)) s)"

subsection \<open>The run\<close>

text \<open>
  Lines 92 to 110 of \<^verbatim>\<open>runImpl\<close>: the profile is resolved, the state solver and the
  contact manager are fetched and set up, and the validator is called. The result is the
  validator's.
\<close>

definition runImpl_contactCheck ::
  "externals \<Rightarrow> TaskComposerTask \<Rightarrow> TaskComposerInput \<Rightarrow> CompositeInstruction \<Rightarrow> sys
     \<Rightarrow> sys \<times> bool \<times> ContactResultMap list" where
  "runImpl_contactCheck ext this input ci s =
     (let profile = getProfile ci;
          profile = getProfileString (DEFAULT_PROFILE_KEY ext) (name this) profile
                      (composite_profile_remapping (problem input));
          (default_profile, s) = make_shared (default_ContactCheckProfile ext) s;
          cur_composite_profile =
            getProfile_ContactCheckProfile (name this) profile (profiles input) default_profile;
          (cur_composite_profile, s) =
            applyProfileOverrides (name this) profile cur_composite_profile
              (getProfileOverrides ci) s;
          manip_info = getCombined ext (getManipulatorInfo ci) (manip_info (problem input));
          manip = getJointGroup (problem_env (problem input)) (manipulator manip_info);
          state_solver = getStateSolver (problem_env (problem input));
          manager = getDiscreteContactManager (problem_env (problem input));
          manager = setActiveCollisionObjects manager (getActiveLinkNames manip);
          manager = applyContactManagerConfig manager
                      (contact_manager_config (config (heap s cur_composite_profile)));
          s = record_call ContactCheckProgram_call s
      in (s, contactCheckProgram ext manager state_solver ci
               (config (heap s cur_composite_profile))))"

definition invalid_input_message :: string where
  "invalid_input_message =
     ''Input seed to DiscreteContactCheckTask must be a composite instruction''"

text \<open>\<^verbatim>\<open>DiscreteContactCheckTask::runImpl\<close>, lines 64 to 130. Logging is left out.\<close>

definition runImpl ::
  "externals \<Rightarrow> TaskComposerTask \<Rightarrow> TaskComposerInput \<Rightarrow> sys
     \<Rightarrow> sys \<times> (exn + DiscreteContactCheckTaskInfo)" where
  "runImpl ext this input s =
     (let info = DiscreteContactCheckTaskInfo_ctor this;
          info = info\<lparr>return_value := 0\<rparr>;
          info = info\<lparr>env := Some (problem_env (problem input))\<rparr>
      in
        if isAborted input then (s, Inr (info\<lparr>message := ''Aborted''\<rparr>))
        else
          let s = record_call Timer_start s in
          case input_keys this of
            [] \<Rightarrow> (s, Inl UndefinedBehaviour)
          | key # _ \<Rightarrow>
              let s = record_call (DataStorage_getData key) s;
                  input_data_poly = getData (data_storage input) key
              in
                if isNull input_data_poly \<or> getType input_data_poly \<noteq> TI_CompositeInstruction
                then
                  (let info = info\<lparr>message := invalid_input_message\<rparr>;
                       s = record_call Timer_elapsedSeconds s;
                       info = info\<lparr>elapsed_time := elapsedSeconds ext\<rparr>
                   in (s, Inr info))
                else
                  (case as_CompositeInstruction input_data_poly of
                     Inl e \<Rightarrow> (s, Inl e)
                   | Inr ci \<Rightarrow>
                       (let (s, any_contact, contacts) = runImpl_contactCheck ext this input ci s
                        in
                          if any_contact then
                            (let info = info\<lparr>message :=
                                   ''Results are not contact free for process input: '' @
                                   getDescription ci\<rparr>;
                                 info = info\<lparr>contact_results := contacts\<rparr>;
                                 s = record_call Timer_elapsedSeconds s;
                                 info = info\<lparr>elapsed_time := elapsedSeconds ext\<rparr>
                             in (s, Inr info))
                          else
                            (let info = info\<lparr>message := ''Discrete contact check succeeded''\<rparr>;
                                 info = info\<lparr>return_value := 1\<rparr>;
                                 s = record_call Timer_elapsedSeconds s;
                                 info = info\<lparr>elapsed_time := elapsedSeconds ext\<rparr>
                             in (s, Inr info)))))"

subsection \<open>Concrete inputs\<close>

text \<open>
  A node with the input key \<open>traj\<close>, an environment with one joint group, a composite
  instruction with no declared profile, and two validators: one that finds no contact and
  one that finds a contact at sample 2 between the links \<open>L1\<close> and \<open>L2\<close> at distance
  \<open>-0.01\<close>; a registry that stores one profile under the default name, at address 0, and a
  remapping of the default name.
\<close>

definition ex_task :: TaskComposerTask where
  "ex_task = DiscreteContactCheckTask_ctor ''check'' ''traj'' True"

definition ex_env :: Environment where
  "ex_env =
     \<lparr>getJointGroup = (\<lambda>_. \<lparr>getActiveLinkNames = [''L1'', ''L2'']\<rparr>),
      getStateSolver = StateSolver 0,
      getDiscreteContactManager = \<lparr>active_collision_objects = [], manager_config = None\<rparr>\<rparr>"

definition ex_profile :: ContactCheckProfile where
  "ex_profile =
     \<lparr>config = \<lparr>contact_manager_config = ContactManagerConfig 0,
                 longest_valid_segment_length = 5\<rparr>\<rparr>"

definition ex_override :: "ContactCheckProfile \<Rightarrow> ContactCheckProfile" where
  "ex_override p = p\<lparr>config := (config p)\<lparr>longest_valid_segment_length := 1\<rparr>\<rparr>"

definition ex_ci :: CompositeInstruction where
  "ex_ci =
     \<lparr>getProfile = [], getProfileOverrides = None,
      getManipulatorInfo = \<lparr>manipulator = ''arm''\<rparr>, getDescription = ''raster''\<rparr>"

definition ex_contacts :: "ContactResultMap list" where
  "ex_contacts =
     [[], [], [((''L1'', ''L2''), [\<lparr>link_names = (''L1'', ''L2''), distance = - (1 / 100)\<rparr>])]]"

definition ex_ext :: "bool \<times> ContactResultMap list \<Rightarrow> externals" where
  "ex_ext verdict =
     \<lparr>DEFAULT_PROFILE_KEY = ''DEFAULT'',
      default_ContactCheckProfile = ex_profile,
      getCombined = (\<lambda>a b. a),
      contactCheckProgram = (\<lambda>manager solver ci c. verdict),
      elapsedSeconds = 2\<rparr>"

definition ex_input :: "TaskComposerDataStorage \<Rightarrow> bool \<Rightarrow> TaskComposerInput" where
  "ex_input ds aborted =
     \<lparr>problem = \<lparr>problem_env = ex_env, manip_info = \<lparr>manipulator = ''arm''\<rparr>,
                  composite_profile_remapping = Map.empty\<rparr>,
      profiles = Map.empty,
      data_storage = ds,
      isAborted = aborted\<rparr>"

definition ex_storage :: TaskComposerDataStorage where
  "ex_storage = [''traj'' \<mapsto> AnyPoly_CompositeInstruction ex_ci]"

definition ex_sys :: sys where
  "ex_sys = \<lparr>calls = [], heap = (\<lambda>_. ex_profile), next_free = 1\<rparr>"

definition ex_base :: "string \<Rightarrow> bool \<times> string list \<Rightarrow> exn + TaskComposerTask" where
  "ex_base nm cfg = Inr \<lparr>name = nm, conditional = fst cfg, input_keys = snd cfg\<rparr>"

definition ex_dict :: ProfileDictionary where
  "ex_dict = [(''check'', ''DEFAULT'') \<mapsto> 0]"

definition ex_remap :: ProfileRemapping where
  "ex_remap = [(''check'', ''DEFAULT'') \<mapsto> ''FAST'']"

definition ex_info :: DiscreteContactCheckTaskInfo where
  "ex_info = DiscreteContactCheckTaskInfo_ctor ex_task"

section \<open>Properties\<close>

subsection \<open>Auxiliary facts\<close>

lemmas info_ctor_defs =
  DiscreteContactCheckTaskInfo_ctor_def TaskComposerNodeInfo_ctor_def
  TaskComposerNodeInfo.extend_def DiscreteContactCheckTaskInfo.fields_def

lemmas ex_defs =
  ex_task_def ex_env_def ex_ci_def ex_ext_def ex_input_def ex_storage_def ex_sys_def
  DiscreteContactCheckTask_ctor_def TaskComposerTask_ctor_def

lemma runImpl_contactCheck_frame:
  assumes "runImpl_contactCheck ext this input ci s = (s', verdict)"
  shows "calls s' = calls s @ [ContactCheckProgram_call]"
    and "next_free s \<le> next_free s'"
    and "b < next_free s \<Longrightarrow> heap s' b = heap s b"
  using assms
  by (auto simp: runImpl_contactCheck_def Let_def record_call_def make_shared_def
        applyProfileOverrides_def split: prod.splits option.splits)

lemma invalid_input_names_type: "sublist ''composite instruction'' invalid_input_message"
  unfolding invalid_input_message_def by code_simp

lemma getData_invalid:
  "ds key = None \<or> getType (getData ds key) \<noteq> TI_CompositeInstruction \<Longrightarrow>
   isNull (getData ds key) \<or> getType (getData ds key) \<noteq> TI_CompositeInstruction"
  by (auto simp: getData_def)

lemma getData_composite:
  "ds key = Some (AnyPoly_CompositeInstruction ci) \<Longrightarrow>
   getData ds key = AnyPoly_CompositeInstruction ci"
  by (simp add: getData_def)

lemma runImpl_returns:
  assumes "input_keys this \<noteq> []"
  shows "\<exists>info. snd (runImpl ext this input s) = Inr info"
proof -
  from assms obtain key keys where k: "input_keys this = key # keys"
    by (cases "input_keys this") auto
  show ?thesis
  proof (cases "getData (data_storage input) key")
    case AnyPoly_null
    with k show ?thesis by (simp add: runImpl_def Let_def)
  next
    case (AnyPoly_CompositeInstruction ci)
    with k show ?thesis
      by (simp add: runImpl_def Let_def split: prod.splits)
  next
    case (AnyPoly_other t)
    with k show ?thesis by (simp add: runImpl_def Let_def)
  qed
qed

lemma runImpl_heap_frame:
  assumes "b < next_free s"
  shows "heap (fst (runImpl ext this input s)) b = heap s b"
proof (cases "input_keys this")
  case Nil
  then show ?thesis by (simp add: runImpl_def Let_def record_call_def)
next
  case (Cons key keys)
  show ?thesis
  proof (cases "getData (data_storage input) key")
    case AnyPoly_null
    with Cons show ?thesis by (simp add: runImpl_def Let_def record_call_def)
  next
    case (AnyPoly_CompositeInstruction ci)
    obtain s' v c where r: "runImpl_contactCheck ext this input ci
        (record_call (DataStorage_getData key) (record_call Timer_start s)) = (s', v, c)"
      by (metis prod_cases3)
    have "heap s' b = heap s b"
      using runImpl_contactCheck_frame(3)[OF r, of b] assms by (simp add: record_call_def)
    with Cons AnyPoly_CompositeInstruction r show ?thesis
      by (simp add: runImpl_def Let_def record_call_def)
  next
    case (AnyPoly_other t)
    with Cons show ?thesis by (simp add: runImpl_def Let_def record_call_def)
  qed
qed

subsection \<open>The run\<close>

text \<open>
  C1. When the abort flag of the context is set, the run returns a report whose message is
  exactly \<open>Aborted\<close> and whose return value is 0. The state is returned as it was: there
  is no call of the data store, of the validator or of the timer, and the elapsed time is
  the zero the report was created with. The same report comes back for any other data store
  and any other validator.
\<close>

theorem runImpl_aborted:
  assumes "isAborted input"
  shows "\<exists>info. runImpl ext this input s = (s, Inr info) \<and>
           message info = ''Aborted'' \<and> return_value info = 0 \<and>
           elapsed_time info = 0 \<and> contact_results info = [] \<and>
           runImpl ext' this (input\<lparr>data_storage := ds'\<rparr>) s = (s, Inr info)"
  using assms by (simp add: runImpl_def Let_def info_ctor_defs)

theorem runImpl_aborted_witness:
  "isAborted (ex_input ex_storage True) \<and>
   (\<exists>info. runImpl (ex_ext (True, ex_contacts)) ex_task (ex_input ex_storage True) ex_sys =
             (ex_sys, Inr info) \<and>
           message info = ''Aborted'' \<and> return_value info = 0 \<and>
           elapsed_time info = 0 \<and> contact_results info = [] \<and>
           runImpl (ex_ext (False, [])) ex_task
             ((ex_input ex_storage True)\<lparr>data_storage := Map.empty\<rparr>) ex_sys = (ex_sys, Inr info))"
proof -
  have h: "isAborted (ex_input ex_storage True)"
    by (simp add: ex_input_def)
  from runImpl_aborted[OF h, of "ex_ext (True, ex_contacts)" ex_task ex_sys
      "ex_ext (False, [])" Map.empty]
  show ?thesis using h by simp
qed

text \<open>
  C2. When the abort flag is not set and the value bound to the first input key is absent or
  is not a composite instruction, the run returns a report (it does not throw) with return
  value 0, a message that names the expected type, and the timer's reading as elapsed time.
  The calls made are the start of the timer, one read of the data store and the reading of
  the timer.
\<close>

theorem runImpl_invalid_input:
  assumes "\<not> isAborted input"
    and "input_keys this = key # keys"
    and "data_storage input key = None \<or>
         getType (getData (data_storage input) key) \<noteq> TI_CompositeInstruction"
  shows "\<exists>info. runImpl ext this input s =
             (s\<lparr>calls := calls s @ [Timer_start, DataStorage_getData key, Timer_elapsedSeconds]\<rparr>,
              Inr info) \<and>
           return_value info = 0 \<and> message info = invalid_input_message \<and>
           sublist ''composite instruction'' (message info) \<and>
           elapsed_time info = elapsedSeconds ext \<and> contact_results info = []"
proof -
  from assms(3) have "isNull (getData (data_storage input) key) \<or>
      getType (getData (data_storage input) key) \<noteq> TI_CompositeInstruction"
    by (rule getData_invalid)
  with assms(1,2) show ?thesis
    by (simp add: runImpl_def Let_def record_call_def info_ctor_defs invalid_input_names_type)
qed

theorem runImpl_invalid_input_witness:
  "\<not> isAborted (ex_input Map.empty False) \<and> input_keys ex_task = [''traj''] \<and>
   data_storage (ex_input Map.empty False) ''traj'' = None \<and>
   (\<exists>info. runImpl (ex_ext (True, ex_contacts)) ex_task (ex_input Map.empty False) ex_sys =
             (ex_sys\<lparr>calls := calls ex_sys @
                 [Timer_start, DataStorage_getData ''traj'', Timer_elapsedSeconds]\<rparr>, Inr info) \<and>
           return_value info = 0 \<and> message info = invalid_input_message \<and>
           sublist ''composite instruction'' (message info) \<and>
           elapsed_time info = 2 \<and> contact_results info = [])"
proof -
  have h1: "\<not> isAborted (ex_input Map.empty False)"
    by (simp add: ex_input_def)
  have h2: "input_keys ex_task = ''traj'' # []"
    by (simp add: ex_defs)
  have h3: "data_storage (ex_input Map.empty False) ''traj'' = None"
    by (simp add: ex_input_def)
  have h3': "data_storage (ex_input Map.empty False) ''traj'' = None \<or>
      getType (getData (data_storage (ex_input Map.empty False)) ''traj'') \<noteq> TI_CompositeInstruction"
    using h3 by simp
  have e: "elapsedSeconds (ex_ext (True, ex_contacts)) = 2"
    by (simp add: ex_ext_def)
  from runImpl_invalid_input[OF h1 h2 h3', of "ex_ext (True, ex_contacts)" ex_sys]
  show ?thesis using h1 h2 h3 e by simp
qed

text \<open>
  C3, as the code has it. When the abort flag is not set, the first input key is bound to a
  composite instruction and the validator reports no contact, the run returns a report with
  return value 1, the message \<open>Discrete contact check succeeded\<close> (which ends with
  \<open>succeeded\<close>), no contact results, and the timer's reading as elapsed time.
\<close>

theorem runImpl_clear:
  assumes "\<not> isAborted input"
    and "input_keys this = key # keys"
    and "data_storage input key = Some (AnyPoly_CompositeInstruction ci)"
    and "runImpl_contactCheck ext this input ci
           (s\<lparr>calls := calls s @ [Timer_start, DataStorage_getData key]\<rparr>) = (s', False, contacts)"
  shows "\<exists>info. runImpl ext this input s = (record_call Timer_elapsedSeconds s', Inr info) \<and>
           return_value info = 1 \<and> message info = ''Discrete contact check succeeded'' \<and>
           suffix ''succeeded'' (message info) \<and> contact_results info = [] \<and>
           elapsed_time info = elapsedSeconds ext \<and>
           calls (record_call Timer_elapsedSeconds s') =
             calls s @ [Timer_start, DataStorage_getData key, ContactCheckProgram_call,
                        Timer_elapsedSeconds]"
proof -
  have sfx: "suffix ''succeeded'' ''Discrete contact check succeeded''"
    by code_simp
  have c: "calls s' = calls s @ [Timer_start, DataStorage_getData key, ContactCheckProgram_call]"
    using runImpl_contactCheck_frame(1)[OF assms(4)] by simp
  show ?thesis
    using assms sfx c
    by (simp add: runImpl_def Let_def record_call_def info_ctor_defs getData_composite)
qed

theorem runImpl_clear_witness:
  "\<not> isAborted (ex_input ex_storage False) \<and> input_keys ex_task = [''traj''] \<and>
   data_storage (ex_input ex_storage False) ''traj'' = Some (AnyPoly_CompositeInstruction ex_ci) \<and>
   snd (runImpl_contactCheck (ex_ext (False, [])) ex_task (ex_input ex_storage False) ex_ci
          (ex_sys\<lparr>calls := calls ex_sys @ [Timer_start, DataStorage_getData ''traj'']\<rparr>)) = (False, []) \<and>
   (\<exists>info. snd (runImpl (ex_ext (False, [])) ex_task (ex_input ex_storage False) ex_sys) = Inr info \<and>
           return_value info = 1 \<and> message info = ''Discrete contact check succeeded'' \<and>
           suffix ''succeeded'' (message info) \<and> contact_results info = [] \<and>
           elapsed_time info = 2) \<and>
   calls (fst (runImpl (ex_ext (False, [])) ex_task (ex_input ex_storage False) ex_sys)) =
     [Timer_start, DataStorage_getData ''traj'', ContactCheckProgram_call, Timer_elapsedSeconds]"
proof -
  let ?E = "ex_ext (False, [])" and ?I = "ex_input ex_storage False"
  let ?S = "ex_sys\<lparr>calls := calls ex_sys @ [Timer_start, DataStorage_getData ''traj'']\<rparr>"
  have h1: "\<not> isAborted ?I"
    by (simp add: ex_input_def)
  have h2: "input_keys ex_task = ''traj'' # []"
    by (simp add: ex_defs)
  have h3: "data_storage ?I ''traj'' = Some (AnyPoly_CompositeInstruction ex_ci)"
    by (simp add: ex_input_def ex_storage_def)
  have v: "snd (runImpl_contactCheck ?E ex_task ?I ex_ci ?S) = (False, [])"
    by (simp add: runImpl_contactCheck_def Let_def split_beta ex_ext_def)
  then have h4: "runImpl_contactCheck ?E ex_task ?I ex_ci ?S =
      (fst (runImpl_contactCheck ?E ex_task ?I ex_ci ?S), False, [])"
    by (metis prod.collapse)
  have e: "elapsedSeconds ?E = 2" "calls ex_sys = []"
    by (simp_all add: ex_ext_def ex_sys_def)
  from runImpl_clear[OF h1 h2 h3 h4]
  show ?thesis using h1 h2 h3 v e by auto
qed

text \<open>
  The message of a clear run is not the string \<open>succeeded\<close> alone: on the trajectory of
  the concrete inputs, with the validator that finds no contact, the return value is 1 and
  the message is \<open>Discrete contact check succeeded\<close>.
\<close>

theorem runImpl_clear_counterexample:
  "\<not> isAborted (ex_input ex_storage False) \<and>
   data_storage (ex_input ex_storage False) ''traj'' = Some (AnyPoly_CompositeInstruction ex_ci) \<and>
   snd (runImpl_contactCheck (ex_ext (False, [])) ex_task (ex_input ex_storage False) ex_ci
          (ex_sys\<lparr>calls := [Timer_start, DataStorage_getData ''traj'']\<rparr>)) = (False, []) \<and>
   map_sum id return_value (snd (runImpl (ex_ext (False, [])) ex_task (ex_input ex_storage False) ex_sys))
     = Inr 1 \<and>
   map_sum id message (snd (runImpl (ex_ext (False, [])) ex_task (ex_input ex_storage False) ex_sys))
     = Inr ''Discrete contact check succeeded'' \<and>
   map_sum id message (snd (runImpl (ex_ext (False, [])) ex_task (ex_input ex_storage False) ex_sys))
     \<noteq> Inr ''succeeded''"
  by (simp add: ex_defs runImpl_def runImpl_contactCheck_def Let_def record_call_def
        getData_def info_ctor_defs make_shared_def applyProfileOverrides_def split_beta)

text \<open>
  C4. When the abort flag is not set, the first input key is bound to a composite
  instruction and the validator reports a contact, the run returns a report with return
  value 0, a message that says the results are not contact free for the instruction's
  description, the validator's contacts as contact results, and the timer's reading as
  elapsed time.
\<close>

theorem runImpl_contact:
  assumes "\<not> isAborted input"
    and "input_keys this = key # keys"
    and "data_storage input key = Some (AnyPoly_CompositeInstruction ci)"
    and "runImpl_contactCheck ext this input ci
           (s\<lparr>calls := calls s @ [Timer_start, DataStorage_getData key]\<rparr>) = (s', True, contacts)"
  shows "\<exists>info. runImpl ext this input s = (record_call Timer_elapsedSeconds s', Inr info) \<and>
           return_value info = 0 \<and>
           message info = ''Results are not contact free for process input: '' @ getDescription ci \<and>
           sublist ''not contact free'' (message info) \<and> contact_results info = contacts \<and>
           elapsed_time info = elapsedSeconds ext"
proof -
  have "''Results are not contact free for process input: '' @ getDescription ci =
        ''Results are '' @ ''not contact free'' @ ('' for process input: '' @ getDescription ci)"
    by simp
  then have sub: "sublist ''not contact free''
      (''Results are not contact free for process input: '' @ getDescription ci)"
    unfolding sublist_def by blast
  show ?thesis
    using assms sub
    by (simp add: runImpl_def Let_def record_call_def info_ctor_defs getData_composite)
qed

theorem runImpl_contact_witness:
  "\<not> isAborted (ex_input ex_storage False) \<and> input_keys ex_task = [''traj''] \<and>
   data_storage (ex_input ex_storage False) ''traj'' = Some (AnyPoly_CompositeInstruction ex_ci) \<and>
   snd (runImpl_contactCheck (ex_ext (True, ex_contacts)) ex_task (ex_input ex_storage False) ex_ci
          (ex_sys\<lparr>calls := calls ex_sys @ [Timer_start, DataStorage_getData ''traj'']\<rparr>)) =
     (True, ex_contacts) \<and>
   (\<exists>info. snd (runImpl (ex_ext (True, ex_contacts)) ex_task (ex_input ex_storage False) ex_sys) =
             Inr info \<and>
           return_value info = 0 \<and>
           message info = ''Results are not contact free for process input: raster'' \<and>
           sublist ''not contact free'' (message info) \<and>
           contact_results info =
             [[], [], [((''L1'', ''L2''), [\<lparr>link_names = (''L1'', ''L2''), distance = - (1 / 100)\<rparr>])]] \<and>
           elapsed_time info = 2)"
proof -
  let ?E = "ex_ext (True, ex_contacts)" and ?I = "ex_input ex_storage False"
  let ?S = "ex_sys\<lparr>calls := calls ex_sys @ [Timer_start, DataStorage_getData ''traj'']\<rparr>"
  have h1: "\<not> isAborted ?I"
    by (simp add: ex_input_def)
  have h2: "input_keys ex_task = ''traj'' # []"
    by (simp add: ex_defs)
  have h3: "data_storage ?I ''traj'' = Some (AnyPoly_CompositeInstruction ex_ci)"
    by (simp add: ex_input_def ex_storage_def)
  have v: "snd (runImpl_contactCheck ?E ex_task ?I ex_ci ?S) = (True, ex_contacts)"
    by (simp add: runImpl_contactCheck_def Let_def split_beta ex_ext_def)
  then have h4: "runImpl_contactCheck ?E ex_task ?I ex_ci ?S =
      (fst (runImpl_contactCheck ?E ex_task ?I ex_ci ?S), True, ex_contacts)"
    by (metis prod.collapse)
  have e: "elapsedSeconds ?E = 2" "getDescription ex_ci = ''raster''"
    by (simp_all add: ex_ext_def ex_ci_def)
  from runImpl_contact[OF h1 h2 h3 h4]
  show ?thesis using h1 h2 h3 v e by (auto simp: ex_contacts_def)
qed

subsection \<open>Construction\<close>

text \<open>
  C5. When the base class has parsed the configuration, construction fails with the runtime
  error about the missing inputs entry if no input key was parsed, fails with the runtime
  error about the single supported input key if more than one was parsed, and yields the
  parsed node if exactly one was parsed.
\<close>

theorem config_ctor_checks:
  assumes "base nm cfg = Inr this"
  shows "(input_keys this = [] \<longrightarrow>
            DiscreteContactCheckTask_config base nm cfg = Inl (RuntimeError missing_inputs_message)) \<and>
         (length (input_keys this) > 1 \<longrightarrow>
            DiscreteContactCheckTask_config base nm cfg = Inl (RuntimeError one_input_key_message)) \<and>
         (length (input_keys this) = 1 \<longrightarrow>
            DiscreteContactCheckTask_config base nm cfg = Inr this)"
  using assms by (auto simp: DiscreteContactCheckTask_config_def)

theorem config_ctor_checks_witness:
  "ex_base ''check'' (True, []) = Inr \<lparr>name = ''check'', conditional = True, input_keys = []\<rparr> \<and>
   DiscreteContactCheckTask_config ex_base ''check'' (True, []) =
     Inl (RuntimeError missing_inputs_message) \<and>
   ex_base ''check'' (True, [''a'', ''b'']) =
     Inr \<lparr>name = ''check'', conditional = True, input_keys = [''a'', ''b'']\<rparr> \<and>
   DiscreteContactCheckTask_config ex_base ''check'' (True, [''a'', ''b'']) =
     Inl (RuntimeError one_input_key_message) \<and>
   ex_base ''check'' (True, [''traj'']) =
     Inr \<lparr>name = ''check'', conditional = True, input_keys = [''traj'']\<rparr> \<and>
   DiscreteContactCheckTask_config ex_base ''check'' (True, [''traj'']) =
     Inr \<lparr>name = ''check'', conditional = True, input_keys = [''traj'']\<rparr>"
proof -
  have b0: "ex_base ''check'' (True, []) =
      Inr \<lparr>name = ''check'', conditional = True, input_keys = []\<rparr>"
    and b2: "ex_base ''check'' (True, [''a'', ''b'']) =
      Inr \<lparr>name = ''check'', conditional = True, input_keys = [''a'', ''b'']\<rparr>"
    and b1: "ex_base ''check'' (True, [''traj'']) =
      Inr \<lparr>name = ''check'', conditional = True, input_keys = [''traj'']\<rparr>"
    by (simp_all add: ex_base_def)
  from config_ctor_checks[where base = ex_base and nm = "''check''" and cfg = "(True, [])", OF b0]
    config_ctor_checks[where base = ex_base and nm = "''check''" and cfg = "(True, [''a'', ''b''])",
      OF b2]
    config_ctor_checks[where base = ex_base and nm = "''check''" and cfg = "(True, [''traj''])",
      OF b1]
    b0 b2 b1
  show ?thesis by simp
qed

text \<open>
  C6, as the code has it. A node built from a name, an input key and a conditional flag has
  exactly that one input key. A node built from a configuration has exactly one input key,
  and a configuration whose parsed input keys are not exactly one is refused with a runtime
  error by the constructor; a node with exactly one input key never makes the run fail. The
  default constructor builds a node with no input key.
\<close>

theorem constructed_one_input_key:
  "input_keys (DiscreteContactCheckTask_ctor nm key c) = [key] \<and>
   (DiscreteContactCheckTask_config base nm cfg = Inr this \<longrightarrow> length (input_keys this) = 1) \<and>
   (base nm cfg = Inr t \<and> length (input_keys t) \<noteq> 1 \<longrightarrow>
      (\<exists>m. DiscreteContactCheckTask_config base nm cfg = Inl (RuntimeError m))) \<and>
   (length (input_keys this') = 1 \<longrightarrow> (\<exists>info. snd (runImpl ext this' input s) = Inr info)) \<and>
   input_keys DiscreteContactCheckTask_default = []"
proof -
  have 1: "input_keys (DiscreteContactCheckTask_ctor nm key c) = [key]"
    by (simp add: DiscreteContactCheckTask_ctor_def TaskComposerTask_ctor_def)
  have 2: "DiscreteContactCheckTask_config base nm cfg = Inr this \<longrightarrow> length (input_keys this) = 1"
    by (cases "input_keys this")
       (auto simp: DiscreteContactCheckTask_config_def split: sum.splits if_splits)
  have 3: "base nm cfg = Inr t \<and> length (input_keys t) \<noteq> 1 \<longrightarrow>
      (\<exists>m. DiscreteContactCheckTask_config base nm cfg = Inl (RuntimeError m))"
    by (cases "input_keys t") (auto simp: DiscreteContactCheckTask_config_def)
  have 4: "length (input_keys this') = 1 \<longrightarrow> (\<exists>info. snd (runImpl ext this' input s) = Inr info)"
    using runImpl_returns[of this' ext input s] by (cases "input_keys this'") auto
  have 5: "input_keys DiscreteContactCheckTask_default = []"
    by (simp add: DiscreteContactCheckTask_default_def TaskComposerTask_ctor_def)
  from 1 2 3 4 5 show ?thesis by blast
qed

theorem constructed_one_input_key_witness:
  "input_keys (DiscreteContactCheckTask_ctor ''check'' ''traj'' True) = [''traj''] \<and>
   DiscreteContactCheckTask_config ex_base ''check'' (True, [''traj'']) =
     Inr \<lparr>name = ''check'', conditional = True, input_keys = [''traj'']\<rparr> \<and>
   length (input_keys \<lparr>name = ''check'', conditional = True, input_keys = [''traj'']\<rparr>) = 1 \<and>
   ex_base ''check'' (True, []) = Inr \<lparr>name = ''check'', conditional = True, input_keys = []\<rparr> \<and>
   (\<exists>m. DiscreteContactCheckTask_config ex_base ''check'' (True, []) = Inl (RuntimeError m)) \<and>
   length (input_keys ex_task) = 1 \<and>
   (\<exists>info. snd (runImpl (ex_ext (False, [])) ex_task (ex_input ex_storage False) ex_sys) = Inr info) \<and>
   input_keys DiscreteContactCheckTask_default = []"
proof -
  let ?t1 = "\<lparr>name = ''check'', conditional = True, input_keys = [''traj'']\<rparr>"
  let ?t0 = "\<lparr>name = ''check'', conditional = True, input_keys = []\<rparr>"
  have c1: "DiscreteContactCheckTask_config ex_base ''check'' (True, [''traj'']) = Inr ?t1"
    by (simp add: DiscreteContactCheckTask_config_def ex_base_def)
  have b0: "ex_base ''check'' (True, []) = Inr ?t0"
    by (simp add: ex_base_def)
  have l: "length (input_keys ex_task) = 1"
    by (simp add: ex_defs)
  from constructed_one_input_key[where nm = "''check''" and key = "''traj''" and c = True
      and base = ex_base and cfg = "(True, [''traj''])" and this = ?t1 and this' = ex_task
      and ext = "ex_ext (False, [])" and input = "ex_input ex_storage False" and s = ex_sys]
    constructed_one_input_key[where nm = "''check''" and key = "''traj''" and c = True
      and base = ex_base and cfg = "(True, [])" and t = ?t0 and this' = ex_task
      and ext = "ex_ext (False, [])" and input = "ex_input ex_storage False" and s = ex_sys]
    c1 b0 l
  show ?thesis by simp
qed

text \<open>
  The default constructor builds a node whose list of input keys is empty, and raises no
  error; a run of that node, with the abort flag not set, indexes the empty list.
\<close>

theorem default_ctor_counterexample:
  "input_keys DiscreteContactCheckTask_default = [] \<and>
   length (input_keys DiscreteContactCheckTask_default) \<noteq> 1 \<and>
   snd (runImpl (ex_ext (False, [])) DiscreteContactCheckTask_default
          (ex_input ex_storage False) ex_sys) = Inl UndefinedBehaviour"
  by (simp add: DiscreteContactCheckTask_default_def TaskComposerTask_ctor_def runImpl_def
        Let_def ex_input_def)

subsection \<open>Profile resolution\<close>

text \<open>
  C7. Profile resolution has no failing step. An empty declared name is resolved as the
  default name is, and to the default name itself when the remapping table has no entry for
  it under the node's name. A name that is absent from the registry yields the
  default-constructed profile. Whatever the declared name, the remapping table, the registry
  and the override are, a run of a node with an input key returns a report.
\<close>

theorem profile_resolution_total:
  "getProfileString dk ns [] remap = getProfileString dk ns dk remap \<and>
   (remap (ns, dk) = None \<longrightarrow> getProfileString dk ns [] remap = dk) \<and>
   (dict (ns, p) = None \<longrightarrow>
      heap (snd (make_shared dflt s))
        (getProfile_ContactCheckProfile ns p dict (fst (make_shared dflt s))) = dflt) \<and>
   (input_keys this \<noteq> [] \<longrightarrow> (\<exists>info. snd (runImpl ext this input s') = Inr info))"
proof -
  have 1: "getProfileString dk ns [] remap = getProfileString dk ns dk remap"
    by (simp add: getProfileString_def)
  have 2: "remap (ns, dk) = None \<longrightarrow> getProfileString dk ns [] remap = dk"
    by (simp add: getProfileString_def)
  have 3: "dict (ns, p) = None \<longrightarrow>
      heap (snd (make_shared dflt s))
        (getProfile_ContactCheckProfile ns p dict (fst (make_shared dflt s))) = dflt"
    by (simp add: getProfile_ContactCheckProfile_def make_shared_def)
  have 4: "input_keys this \<noteq> [] \<longrightarrow> (\<exists>info. snd (runImpl ext this input s') = Inr info)"
    using runImpl_returns[of this ext input s'] by blast
  from 1 2 3 4 show ?thesis by blast
qed

theorem profile_resolution_total_witness:
  "getProfileString ''DEFAULT'' ''check'' [] ex_remap = ''FAST'' \<and>
   getProfileString ''DEFAULT'' ''check'' ''DEFAULT'' ex_remap = ''FAST'' \<and>
   Map.empty (''check'', ''DEFAULT'') = (None :: string option) \<and>
   getProfileString ''DEFAULT'' ''check'' [] Map.empty = ''DEFAULT'' \<and>
   ex_dict (''check'', ''FAST'') = None \<and>
   heap (snd (make_shared ex_profile ex_sys))
     (getProfile_ContactCheckProfile ''check'' ''FAST'' ex_dict
        (fst (make_shared ex_profile ex_sys))) = ex_profile \<and>
   input_keys ex_task \<noteq> [] \<and>
   (\<exists>info. snd (runImpl (ex_ext (False, [])) ex_task (ex_input ex_storage False) ex_sys) = Inr info)"
proof -
  have f: "getProfileString ''DEFAULT'' ''check'' ''DEFAULT'' ex_remap = ''FAST''"
    by (simp add: getProfileString_def ex_remap_def)
  have g: "getProfileString ''DEFAULT'' ''check'' ''DEFAULT'' Map.empty = ''DEFAULT''"
    by (simp add: getProfileString_def)
  have d: "ex_dict (''check'', ''FAST'') = None"
    by (simp add: ex_dict_def)
  have k: "input_keys ex_task \<noteq> []"
    by (simp add: ex_defs)
  from profile_resolution_total[where dk = "''DEFAULT''" and ns = "''check''" and remap = ex_remap
      and dict = ex_dict and p = "''FAST''" and dflt = ex_profile and s = ex_sys
      and this = ex_task and ext = "ex_ext (False, [])" and input = "ex_input ex_storage False"
      and s' = ex_sys]
    profile_resolution_total[where dk = "''DEFAULT''" and ns = "''check''" and remap = Map.empty
      and dict = ex_dict and p = "''FAST''" and dflt = ex_profile and s = ex_sys
      and this = ex_task and ext = "ex_ext (False, [])" and input = "ex_input ex_storage False"
      and s' = ex_sys]
    f g d k
  show ?thesis by simp
qed

text \<open>
  C8. When the registry stores a profile under the resolved name and the instruction has an
  override, the effective profile is a new object, the override applied to the stored
  profile, and the stored profile is unchanged, as is every profile object that existed
  before; the same holds for every profile object across a whole run.
\<close>

theorem override_copy:
  assumes "dict (ns, p) = Some a"
    and "a < next_free s"
    and "applyProfileOverrides ns p (getProfile_ContactCheckProfile ns p dict d) (Some f) s = (eff, s')"
  shows "heap s' eff = f (heap s a) \<and> eff \<noteq> a \<and> heap s' a = heap s a \<and>
         (\<forall>b. b < next_free s \<longrightarrow> heap s' b = heap s b) \<and>
         (\<forall>b. b < next_free s \<longrightarrow> heap (fst (runImpl ext this input s)) b = heap s b)"
proof -
  have "\<forall>b. b < next_free s \<longrightarrow> heap (fst (runImpl ext this input s)) b = heap s b"
    using runImpl_heap_frame by blast
  with assms show ?thesis
    by (auto simp: applyProfileOverrides_def getProfile_ContactCheckProfile_def make_shared_def)
qed

theorem override_copy_witness:
  "ex_dict (''check'', ''DEFAULT'') = Some 0 \<and> 0 < next_free ex_sys \<and>
   fst (applyProfileOverrides ''check'' ''DEFAULT''
          (getProfile_ContactCheckProfile ''check'' ''DEFAULT'' ex_dict 7) (Some ex_override) ex_sys) = 1 \<and>
   heap (snd (applyProfileOverrides ''check'' ''DEFAULT''
          (getProfile_ContactCheckProfile ''check'' ''DEFAULT'' ex_dict 7) (Some ex_override) ex_sys)) 1
     = ex_override ex_profile \<and>
   heap (snd (applyProfileOverrides ''check'' ''DEFAULT''
          (getProfile_ContactCheckProfile ''check'' ''DEFAULT'' ex_dict 7) (Some ex_override) ex_sys)) 0
     = ex_profile \<and>
   ex_override ex_profile \<noteq> ex_profile \<and>
   heap (fst (runImpl (ex_ext (False, [])) ex_task (ex_input ex_storage False) ex_sys)) 0 = ex_profile"
proof -
  let ?R = "applyProfileOverrides ''check'' ''DEFAULT''
          (getProfile_ContactCheckProfile ''check'' ''DEFAULT'' ex_dict 7) (Some ex_override) ex_sys"
  have h1: "ex_dict (''check'', ''DEFAULT'') = Some 0"
    by (simp add: ex_dict_def)
  have h2: "0 < next_free ex_sys" and n: "next_free ex_sys = 1" and h: "heap ex_sys 0 = ex_profile"
    by (simp_all add: ex_sys_def)
  have e: "fst ?R = 1"
    by (simp add: applyProfileOverrides_def make_shared_def ex_sys_def)
  then have h3: "?R = (1, snd ?R)"
    by (metis prod.collapse)
  have o: "ex_override ex_profile \<noteq> ex_profile"
    by (simp add: ex_override_def ex_profile_def)
  from override_copy[OF h1 h2 h3, where ext = "ex_ext (False, [])" and this = ex_task
      and input = "ex_input ex_storage False"]
  show ?thesis using h1 h2 n h e o by simp
qed

subsection \<open>Comparison\<close>

text \<open>
  C9. Two nodes are equal iff they have the same name, conditional flag and input keys;
  \<^verbatim>\<open>operator!=\<close> is the negation of \<^verbatim>\<open>operator==\<close>; two nodes constructed from the
  same name, input key and flag are equal. A node holds no report and a run, which is a
  \<^verbatim>\<open>const\<close> member function, returns a report only: the operands of the comparison are
  the same before and after any run.
\<close>

theorem task_eq_structural:
  "(DiscreteContactCheckTask_eq a b \<longleftrightarrow>
      name a = name b \<and> conditional a = conditional b \<and> input_keys a = input_keys b) \<and>
   (DiscreteContactCheckTask_neq a b \<longleftrightarrow> \<not> DiscreteContactCheckTask_eq a b) \<and>
   DiscreteContactCheckTask_eq (DiscreteContactCheckTask_ctor nm key c)
     (DiscreteContactCheckTask_ctor nm key c)"
  by (simp add: DiscreteContactCheckTask_eq_def DiscreteContactCheckTask_neq_def
        TaskComposerTask_eq_def)

theorem task_eq_structural_witness:
  "DiscreteContactCheckTask_eq ex_task (DiscreteContactCheckTask_ctor ''check'' ''traj'' True) \<and>
   \<not> DiscreteContactCheckTask_neq ex_task (DiscreteContactCheckTask_ctor ''check'' ''traj'' True) \<and>
   \<not> DiscreteContactCheckTask_eq ex_task (DiscreteContactCheckTask_ctor ''check'' ''other'' True) \<and>
   DiscreteContactCheckTask_neq ex_task DiscreteContactCheckTask_default"
  using task_eq_structural[of ex_task "DiscreteContactCheckTask_ctor ''check'' ''traj'' True"]
    task_eq_structural[of ex_task "DiscreteContactCheckTask_ctor ''check'' ''other'' True"]
    task_eq_structural[of ex_task DiscreteContactCheckTask_default]
  by (simp add: ex_task_def DiscreteContactCheckTask_ctor_def TaskComposerTask_ctor_def
        DiscreteContactCheckTask_default_def)

text \<open>
  C10. The comparison of two reports is the comparison of their base-class parts: the
  contact results of the two operands do not enter it. When the base-class fields are
  equal and the base class compares its fields, two reports are equal whatever their
  contact results are.
\<close>

theorem info_eq_ignores_contact_results:
  "DiscreteContactCheckTaskInfo_eq base_eq (a\<lparr>contact_results := c1\<rparr>) (b\<lparr>contact_results := c2\<rparr>) =
     base_eq (TaskComposerNodeInfo.truncate a) (TaskComposerNodeInfo.truncate b) \<and>
   (TaskComposerNodeInfo.truncate a = TaskComposerNodeInfo.truncate b \<longrightarrow>
      DiscreteContactCheckTaskInfo_eq (=) (a\<lparr>contact_results := c1\<rparr>) (b\<lparr>contact_results := c2\<rparr>) \<and>
      \<not> DiscreteContactCheckTaskInfo_neq (=) (a\<lparr>contact_results := c1\<rparr>) (b\<lparr>contact_results := c2\<rparr>))"
  by (simp add: DiscreteContactCheckTaskInfo_eq_def DiscreteContactCheckTaskInfo_neq_def
        TaskComposerNodeInfo.truncate_def)

theorem info_eq_ignores_contact_results_witness:
  "contact_results (ex_info\<lparr>contact_results := []\<rparr>) \<noteq>
     contact_results (ex_info\<lparr>contact_results := ex_contacts\<rparr>) \<and>
   DiscreteContactCheckTaskInfo_eq (=) (ex_info\<lparr>contact_results := []\<rparr>)
     (ex_info\<lparr>contact_results := ex_contacts\<rparr>) \<and>
   \<not> DiscreteContactCheckTaskInfo_neq (=) (ex_info\<lparr>contact_results := []\<rparr>)
     (ex_info\<lparr>contact_results := ex_contacts\<rparr>)"
  using info_eq_ignores_contact_results[where base_eq = "(=)" and a = ex_info and b = ex_info
      and ?c1.0 = "[]" and ?c2.0 = ex_contacts]
  by (simp add: ex_contacts_def)

end
